theory Spec2Isabelle
  imports Main "HOL-Library.AList" "HOL-Library.Char_ord" "HOL-Library.List_Lexorder"
begin

section \<open>Data model of app.py\<close>

text \<open>
  A word entry is the inner dictionary \<^verbatim>\<open>{"meaning": ..., "memo": ...}\<close>. The word
  repository is a Python \<^verbatim>\<open>dict\<close>: an association list in insertion order, where
  assigning to a key that is present replaces the value in place and assigning to a
  new key appends it (this is \<open>AList.update\<close>).
\<close>

record entry =
  meaning :: string
  memo :: string

type_synonym dict = "(string \<times> entry) list"

definition dict_setitem :: "string \<Rightarrow> entry \<Rightarrow> dict \<Rightarrow> dict" where
  "dict_setitem k v d = AList.update k v d"

definition dict_pop :: "string \<Rightarrow> dict \<Rightarrow> dict" where
  "dict_pop k d = AList.delete k d"

definition dict_keys :: "dict \<Rightarrow> string list" where
  "dict_keys d = map fst d"

text \<open>\<^verbatim>\<open>d |= other\<close>: every item of \<open>other\<close>, in its order, is assigned into \<open>d\<close>.\<close>

definition dict_ior :: "dict \<Rightarrow> dict \<Rightarrow> dict" where
  "dict_ior d other = foldl (\<lambda>acc kv. dict_setitem (fst kv) (snd kv) acc) d other"

text \<open>
  The two store files and the JSON values they hold. A file's text is identified with
  the JSON value it encodes (\<^verbatim>\<open>json.dumps\<close> followed by \<^verbatim>\<open>json.loads\<close> is the
  identity on these values).
\<close>

datatype path = WORDS_FILE | LEARNED_FILE

datatype jvalue = JDict dict | JList "string list"

fun stem :: "path \<Rightarrow> string" where
  "stem WORDS_FILE = ''words''"
| "stem LEARNED_FILE = ''learned_words''"

text \<open>
  The file system: the two store files (absent or holding a value) and the directory
  \<^verbatim>\<open>backups\<close>, a listing of file names with their contents.
\<close>

record fs =
  files :: "path \<Rightarrow> jvalue option"
  backups :: "(string \<times> jvalue) list"

datatype error = OSError | KeyError | ValueError | IndexError | TypeError | TransportError

text \<open>
  What a save reads from outside: the wall clock (\<^verbatim>\<open>datetime.datetime.now()\<close>) and
  whether \<^verbatim>\<open>shutil.copy2\<close> succeeds.
\<close>

record dt =
  year :: nat
  month :: nat
  day :: nat
  hour :: nat
  minute :: nat
  second :: nat

record env =
  now :: dt
  copy_ok :: bool

section \<open>Formatting the time stamp\<close>

text \<open>\<^verbatim>\<open>%Y-%m-%d_%H%M%S\<close>: decimal fields, zero padded to four and two digits.\<close>

definition digit :: "nat \<Rightarrow> char" where
  "digit n = char_of (48 + n)"

fun dec :: "nat \<Rightarrow> string" where
  "dec n = (if n < 10 then [digit n] else dec (n div 10) @ [digit (n mod 10)])"

declare dec.simps [simp del]

definition zfill :: "nat \<Rightarrow> string \<Rightarrow> string" where
  "zfill k s = replicate (k - length s) (CHR ''0'') @ s"

definition strftime :: "dt \<Rightarrow> string" where
  "strftime t =
     zfill 4 (dec (year t)) @ ''-'' @ zfill 2 (dec (month t)) @ ''-'' @ zfill 2 (dec (day t))
     @ ''_'' @ zfill 2 (dec (hour t)) @ zfill 2 (dec (minute t)) @ zfill 2 (dec (second t))"

text \<open>
  The clock's readings: the ranges of \<^verbatim>\<open>datetime\<close>, with a four-digit year (how
  \<^verbatim>\<open>%Y\<close> writes a year below 1000 depends on the platform; the results on the names
  are stated for these readings).
\<close>

definition valid_dt :: "dt \<Rightarrow> bool" where
  "valid_dt t \<longleftrightarrow>
     1000 \<le> year t \<and> year t \<le> 9999 \<and> 1 \<le> month t \<and> month t \<le> 12 \<and>
     1 \<le> day t \<and> day t \<le> 31 \<and> hour t \<le> 23 \<and> minute t \<le> 59 \<and> second t \<le> 59"


section \<open>The JSON utilities\<close>

text \<open>\<^verbatim>\<open>BACKUP_DIR / f"{path.stem}_{now:%Y-%m-%d_%H%M%S}.json"\<close>\<close>

definition snap_name :: "string \<Rightarrow> dt \<Rightarrow> string" where
  "snap_name st t = st @ ''_'' @ strftime t @ ''.json''"

text \<open>\<^verbatim>\<open>BACKUP_DIR.glob(f"{stem}_*.json")\<close>: the names with that prefix and suffix.\<close>

definition glob_match :: "string \<Rightarrow> string \<Rightarrow> bool" where
  "glob_match st name \<longleftrightarrow>
     length st + 6 \<le> length name \<and> take (length st + 1) name = st @ ''_''
     \<and> drop (length name - 5) name = ''.json''"

definition glob :: "string \<Rightarrow> fs \<Rightarrow> string list" where
  "glob st f = filter (glob_match st) (map fst (backups f))"

definition unlink :: "string \<Rightarrow> fs \<Rightarrow> fs" where
  "unlink name f = f\<lparr>backups := AList.delete name (backups f)\<rparr>"

text \<open>
  \<^verbatim>\<open>snaps[:-keep]\<close> is the list without its last \<open>keep\<close> elements, and the empty list
  when \<open>keep\<close> is 0.
\<close>

definition all_but_last :: "nat \<Rightarrow> 'a list \<Rightarrow> 'a list" where
  "all_but_last keep xs = (if keep = 0 then [] else take (length xs - keep) xs)"

definition trim_backups :: "string \<Rightarrow> nat \<Rightarrow> fs \<Rightarrow> fs" where
  "trim_backups st keep f = fold unlink (all_but_last keep (sort (glob st f))) f"

text \<open>\<^verbatim>\<open>shutil.copy2(path, snap)\<close> for a store file that exists: creates or overwrites.\<close>

definition copy2 :: "path \<Rightarrow> string \<Rightarrow> fs \<Rightarrow> fs" where
  "copy2 p name f =
     (case files f p of
        None \<Rightarrow> f
      | Some v \<Rightarrow> f\<lparr>backups := AList.update name v (backups f)\<rparr>)"

definition write_text :: "path \<Rightarrow> jvalue \<Rightarrow> fs \<Rightarrow> fs" where
  "write_text p v f = f\<lparr>files := (files f)(p \<mapsto> v)\<rparr>"

text \<open>
  \<^verbatim>\<open>_json_dump\<close>. When the copy raises, the exception leaves the function at once:
  the result is the error, and the file system is the one the call started with.
\<close>

definition json_dump :: "env \<Rightarrow> path \<Rightarrow> jvalue \<Rightarrow> fs \<Rightarrow> error + fs" where
  "json_dump e p v f =
     (if files f p \<noteq> None then
        (if copy_ok e then
           Inr (write_text p v (trim_backups (stem p) 5 (copy2 p (snap_name (stem p) (now e)) f)))
         else Inl OSError)
      else Inr (write_text p v f))"

definition save_words :: "env \<Rightarrow> dict \<Rightarrow> fs \<Rightarrow> error + fs" where
  "save_words e ws f = json_dump e WORDS_FILE (JDict ws) f"

definition save_learned :: "env \<Rightarrow> string list \<Rightarrow> fs \<Rightarrow> error + fs" where
  "save_learned e ls f = json_dump e LEARNED_FILE (JList ls) f"

section \<open>Session state, results and messages\<close>

text \<open>
  \<^verbatim>\<open>st.session_state\<close> holds the word repository and the learned list; the world a
  handler runs in is that state, the file system and the messages shown to the operator
  (\<^verbatim>\<open>st.success\<close>, \<^verbatim>\<open>st.error\<close>). A block of the script returns, halts the script
  (\<^verbatim>\<open>st.stop()\<close>), restarts it (\<^verbatim>\<open>st.rerun()\<close>) or raises.
\<close>

datatype msg = AddedMsg string | DeletedMsg string | ApiErrorMsg nat string string
  | AllLearnedMsg | NothingToReviewMsg

datatype 'a result = Return 'a | Stop | Rerun | Raise error

record world =
  words :: dict
  learned :: "string list"
  disk :: fs
  shown :: "msg list"

definition st_show :: "msg \<Rightarrow> world \<Rightarrow> world" where
  "st_show m w = w\<lparr>shown := shown w @ [m]\<rparr>"

section \<open>Loading\<close>

text \<open>
  \<^verbatim>\<open>load_words\<close> and \<^verbatim>\<open>load_learned\<close> create a missing file with the empty value.
  A store file holding JSON of the other shape is outside the data model: the source
  would carry the value on and fail at its first use, the model reports it here.
\<close>

definition load_words :: "fs \<Rightarrow> error + (dict \<times> fs)" where
  "load_words f =
     (case files f WORDS_FILE of
        None \<Rightarrow> Inr ([], write_text WORDS_FILE (JDict []) f)
      | Some (JDict d) \<Rightarrow> Inr (d, f)
      | Some (JList l) \<Rightarrow> Inl TypeError)"

definition load_learned :: "fs \<Rightarrow> error + (string list \<times> fs)" where
  "load_learned f =
     (case files f LEARNED_FILE of
        None \<Rightarrow> Inr ([], write_text LEARNED_FILE (JList []) f)
      | Some (JList l) \<Rightarrow> Inr (l, f)
      | Some (JDict d) \<Rightarrow> Inl TypeError)"

section \<open>Synchronisation with the remote table\<close>

text \<open>
  A record of the remote table, as far as \<^verbatim>\<open>fetch_notion_rows\<close> reads it: for each of
  the three properties, \<open>None\<close> when the property is missing and otherwise the
  \<^verbatim>\<open>plain_text\<close> of its text items. The query answers with the records, with an
  \<^verbatim>\<open>APIResponseError\<close> (status, code, message) or with another exception of the
  client (the remote side was not reached).
\<close>

record page =
  p_word :: "string list option"
  p_mean :: "string list option"
  p_memo :: "string list option"

datatype response = Results "page list" | APIResponseError nat string string | Unreachable

definition page_row :: "page \<Rightarrow> error + (string \<times> entry)" where
  "page_row r =
     (case p_word r of
        None \<Rightarrow> Inl KeyError
      | Some [] \<Rightarrow> Inl IndexError
      | Some (wd # _) \<Rightarrow>
          (case p_mean r of
             None \<Rightarrow> Inl KeyError
           | Some [] \<Rightarrow> Inl IndexError
           | Some (mn # _) \<Rightarrow>
               (case p_memo r of
                  None \<Rightarrow> Inl KeyError
                | Some [] \<Rightarrow> Inr (wd, \<lparr>meaning = mn, memo = []\<rparr>)
                | Some (mm # _) \<Rightarrow> Inr (wd, \<lparr>meaning = mn, memo = mm\<rparr>))))"

fun map_rows :: "page list \<Rightarrow> error + (string \<times> entry) list" where
  "map_rows [] = Inr []"
| "map_rows (r # rs) =
     (case page_row r of
        Inl x \<Rightarrow> Inl x
      | Inr row \<Rightarrow> (case map_rows rs of Inl x \<Rightarrow> Inl x | Inr rows \<Rightarrow> Inr (row # rows)))"

definition fetch_notion_rows :: "response \<Rightarrow> world \<Rightarrow> (string \<times> entry) list result \<times> world" where
  "fetch_notion_rows resp w =
     (case resp of
        APIResponseError status code m \<Rightarrow> (Stop, st_show (ApiErrorMsg status code m) w)
      | Unreachable \<Rightarrow> (Raise TransportError, w)
      | Results rs \<Rightarrow>
          (case map_rows rs of Inl x \<Rightarrow> (Raise x, w) | Inr rows \<Rightarrow> (Return rows, w)))"

text \<open>
  \<^verbatim>\<open>sync_from_notion\<close>: a fresh dictionary is filled from the rows, saved to the words
  file and returned.
\<close>

definition from_rows :: "(string \<times> entry) list \<Rightarrow> dict" where
  "from_rows rows = foldl (\<lambda>acc row. dict_setitem (fst row) (snd row) acc) [] rows"

definition sync_from_notion :: "env \<Rightarrow> response \<Rightarrow> world \<Rightarrow> dict result \<times> world" where
  "sync_from_notion e resp w =
     (case fetch_notion_rows resp w of
        (Return rows, w1) \<Rightarrow>
          (case save_words e (from_rows rows) (disk w1) of
             Inl x \<Rightarrow> (Raise x, w1)
           | Inr f \<Rightarrow> (Return (from_rows rows), w1\<lparr>disk := f\<rparr>))
      | (Stop, w1) \<Rightarrow> (Stop, w1)
      | (Rerun, w1) \<Rightarrow> (Rerun, w1)
      | (Raise x, w1) \<Rightarrow> (Raise x, w1))"

text \<open>Line 109: \<^verbatim>\<open>st.session_state["words"] |= sync_from_notion()\<close>.\<close>

definition sync_session :: "env \<Rightarrow> response \<Rightarrow> world \<Rightarrow> unit result \<times> world" where
  "sync_session e resp w =
     (case sync_from_notion e resp w of
        (Return remote, w1) \<Rightarrow> (Return (), w1\<lparr>words := dict_ior (words w1) remote\<rparr>)
      | (Stop, w1) \<Rightarrow> (Stop, w1)
      | (Rerun, w1) \<Rightarrow> (Rerun, w1)
      | (Raise x, w1) \<Rightarrow> (Raise x, w1))"

text \<open>Lines 106 and 107: the session state is filled from the two files.\<close>

definition load_session :: "fs \<Rightarrow> error + world" where
  "load_session f =
     (case load_words f of
        Inl x \<Rightarrow> Inl x
      | Inr (ws, f1) \<Rightarrow>
          (case load_learned f1 of
             Inl x \<Rightarrow> Inl x
           | Inr (ls, f2) \<Rightarrow> Inr \<lparr>words = ws, learned = ls, disk = f2, shown = []\<rparr>))"

text \<open>The whole initialisation of a session that has no \<^verbatim>\<open>"words"\<close> yet.\<close>

definition session_init :: "env \<Rightarrow> response \<Rightarrow> fs \<Rightarrow> error + (unit result \<times> world)" where
  "session_init e resp f =
     (case load_session f of Inl x \<Rightarrow> Inl x | Inr w \<Rightarrow> Inr (sync_session e resp w))"

section \<open>Sidebar handlers\<close>

text \<open>
  The add handler: \<^verbatim>\<open>if add_clicked and new_word and new_mean\<close>; a string is true when it
  is not empty.
\<close>

definition add_handler :: "env \<Rightarrow> string \<times> string \<times> string \<times> bool \<Rightarrow> world \<Rightarrow> unit result \<times> world" where
  "add_handler e a w =
     (case a of (new_word, new_mean, new_memo, add_clicked) \<Rightarrow>
        if add_clicked \<and> new_word \<noteq> [] \<and> new_mean \<noteq> [] then
          (let w1 = w\<lparr>words := dict_setitem new_word \<lparr>meaning = new_mean, memo = new_memo\<rparr> (words w)\<rparr>
           in case save_words e (words w1) (disk w1) of
                Inl x \<Rightarrow> (Raise x, w1)
              | Inr f \<Rightarrow> (Return (), st_show (AddedMsg new_word) (w1\<lparr>disk := f\<rparr>)))
        else (Return (), w))"

text \<open>
  The delete handler. The select box gives \<open>None\<close> when it has no option. The two saves
  read the clock and copy separately.
\<close>

definition delete_handler :: "env \<Rightarrow> env \<Rightarrow> string option \<times> bool \<Rightarrow> world \<Rightarrow> unit result \<times> world" where
  "delete_handler e1 e2 a w =
     (case a of
        (None, del_clicked) \<Rightarrow> (Return (), w)
      | (Some del_target, del_clicked) \<Rightarrow>
          if del_clicked \<and> del_target \<in> set (dict_keys (words w)) then
            (let w1 = w\<lparr>words := dict_pop del_target (words w),
                        learned := filter (\<lambda>x. x \<noteq> del_target) (learned w)\<rparr>
             in case save_words e1 (words w1) (disk w1) of
                  Inl x \<Rightarrow> (Raise x, w1)
                | Inr f1 \<Rightarrow>
                    (case save_learned e2 (learned w1) f1 of
                       Inl x \<Rightarrow> (Raise x, w1\<lparr>disk := f1\<rparr>)
                     | Inr f2 \<Rightarrow> (Return (), st_show (DeletedMsg del_target) (w1\<lparr>disk := f2\<rparr>))))
          else (Return (), w))"

section \<open>Main screen\<close>

text \<open>Learning mode: the queue is the repository's words that are not learned.\<close>

definition queue :: "world \<Rightarrow> string list" where
  "queue w = filter (\<lambda>x. x \<notin> set (learned w)) (dict_keys (words w))"

definition current :: "world \<Rightarrow> string option" where
  "current w = (case queue w of [] \<Rightarrow> None | c # _ \<Rightarrow> Some c)"

text \<open>Lines 167 to 169, the body of the "known" button.\<close>

definition mark_learned :: "env \<Rightarrow> string \<Rightarrow> world \<Rightarrow> unit result \<times> world" where
  "mark_learned e cur w =
     (let w1 = w\<lparr>learned := learned w @ [cur]\<rparr>
      in case save_learned e (learned w1) (disk w1) of
           Inl x \<Rightarrow> (Raise x, w1)
         | Inr f \<Rightarrow> (Rerun, w1\<lparr>disk := f\<rparr>))"

definition learning_mode :: "env \<Rightarrow> bool \<Rightarrow> world \<Rightarrow> unit result \<times> world" where
  "learning_mode e known_clicked w =
     (case queue w of
        [] \<Rightarrow> (Stop, st_show AllLearnedMsg w)
      | cur # _ \<Rightarrow>
          (case map_of (words w) cur of
             None \<Rightarrow> (Raise KeyError, w)
           | Some ent \<Rightarrow> if known_clicked then mark_learned e cur w else (Return (), w)))"

text \<open>
  Review mode. The select box returns one of its options: the operator's choice \<open>i\<close>,
  counted from 0 and kept inside the list. \<^verbatim>\<open>learned.remove(target)\<close> deletes the first
  occurrence and raises \<^verbatim>\<open>ValueError\<close> when there is none.
\<close>

definition selectbox :: "'a list \<Rightarrow> nat \<Rightarrow> 'a option" where
  "selectbox options i = (if options = [] then None else Some (options ! min i (length options - 1)))"

definition list_remove :: "'a \<Rightarrow> 'a list \<Rightarrow> error + 'a list" where
  "list_remove x xs = (if x \<in> set xs then Inr (remove1 x xs) else Inl ValueError)"

text \<open>Lines 185 to 187, the body of the "relearn" button.\<close>

definition mark_unlearned :: "env \<Rightarrow> string \<Rightarrow> world \<Rightarrow> unit result \<times> world" where
  "mark_unlearned e target w =
     (case list_remove target (learned w) of
        Inl x \<Rightarrow> (Raise x, w)
      | Inr ls \<Rightarrow>
          (let w1 = w\<lparr>learned := ls\<rparr>
           in case save_learned e (learned w1) (disk w1) of
                Inl x \<Rightarrow> (Raise x, w1)
              | Inr f \<Rightarrow> (Rerun, w1\<lparr>disk := f\<rparr>)))"

definition review_mode :: "env \<Rightarrow> nat \<Rightarrow> bool \<Rightarrow> world \<Rightarrow> unit result \<times> world" where
  "review_mode e i relearn_clicked w =
     (case selectbox (learned w) i of
        None \<Rightarrow> (Stop, st_show NothingToReviewMsg w)
      | Some target \<Rightarrow>
          (case map_of (words w) target of
             None \<Rightarrow> (Raise KeyError, w)
           | Some ent \<Rightarrow> if relearn_clicked then mark_unlearned e target w else (Return (), w)))"


section \<open>Saving\<close>

lemma files_fold_unlink: "files (fold unlink ns f) = files f"
  by (induction ns arbitrary: f) (simp_all add: unlink_def)

lemma files_trim_backups: "files (trim_backups st keep f) = files f"
  by (simp add: trim_backups_def files_fold_unlink)

lemma files_copy2: "files (copy2 p name f) = files f"
  by (simp add: copy2_def split: option.splits)

lemma json_dump_ok:
  assumes "copy_ok e"
  shows "\<exists>f'. json_dump e p v f = Inr f' \<and> files f' = (files f)(p \<mapsto> v)"
  using assms by (simp add: json_dump_def write_text_def files_trim_backups files_copy2)

lemma save_words_ok:
  assumes "copy_ok e"
  shows "\<exists>f'. save_words e ws f = Inr f' \<and> files f' = (files f)(WORDS_FILE \<mapsto> JDict ws)"
  unfolding save_words_def using json_dump_ok [OF assms] .

lemma save_learned_ok:
  assumes "copy_ok e"
  shows "\<exists>f'. save_learned e ls f = Inr f' \<and> files f' = (files f)(LEARNED_FILE \<mapsto> JList ls)"
  unfolding save_learned_def using json_dump_ok [OF assms] .

lemma json_dump_written:
  assumes "copy_ok e \<or> files f p = None"
  shows "\<exists>f'. json_dump e p v f = Inr f' \<and> files f' = (files f)(p \<mapsto> v)"
  using assms by (auto simp add: json_dump_def write_text_def files_trim_backups files_copy2)

lemma save_words_written:
  assumes "copy_ok e \<or> files f WORDS_FILE = None"
  shows "\<exists>f'. save_words e ws f = Inr f' \<and> files f' = (files f)(WORDS_FILE \<mapsto> JDict ws)"
  unfolding save_words_def using json_dump_written [OF assms] .


lemma selectbox_mem:
  assumes "selectbox xs i = Some t"
  shows "t \<in> set xs"
proof -
  from assms have ne: "xs \<noteq> []" and t: "t = xs ! min i (length xs - 1)"
    by (auto simp add: selectbox_def split: if_splits)
  from ne have "min i (length xs - 1) < length xs"
    by (cases xs) auto
  with t show ?thesis by simp
qed

lemma queue_in_words: "c \<in> set (queue w) \<Longrightarrow> map_of (words w) c \<noteq> None"
  by (auto simp add: queue_def dict_keys_def map_of_eq_None_iff)

text \<open>
  C10. A save over an existing store file whose backup copy raises stops before the
  write. \<^verbatim>\<open>_json_dump\<close> ends in the error, and in every block of the script that saves
  (the add and the delete handler, the two buttons of the main screen and the
  synchronisation) the exception leaves the block with the file system it started with:
  the store file is unchanged, the trim has not run, and no success message is shown (a
  copy that raises is taken to leave nothing behind in the backup directory). In the
  delete handler, when the first save succeeds and the copy of the second one raises,
  the learned file is unchanged.
\<close>

theorem json_dump_copy_fails:
  assumes "\<not> copy_ok e"
  shows "(files f p \<noteq> None \<longrightarrow> json_dump e p v f = Inl OSError)
   \<and> (files (disk w) WORDS_FILE \<noteq> None \<and> new_word \<noteq> [] \<and> new_mean \<noteq> [] \<longrightarrow>
        (\<exists>w'. add_handler e (new_word, new_mean, new_memo, True) w = (Raise OSError, w')
           \<and> disk w' = disk w \<and> shown w' = shown w))
   \<and> (files (disk w) WORDS_FILE \<noteq> None \<and> t \<in> set (dict_keys (words w)) \<longrightarrow>
        (\<exists>w'. delete_handler e e2 (Some t, True) w = (Raise OSError, w')
           \<and> disk w' = disk w \<and> shown w' = shown w))
   \<and> (files (disk w) LEARNED_FILE \<noteq> None \<and> t \<in> set (dict_keys (words w)) \<and> copy_ok e1 \<longrightarrow>
        (\<exists>w'. delete_handler e1 e (Some t, True) w = (Raise OSError, w')
           \<and> files (disk w') LEARNED_FILE = files (disk w) LEARNED_FILE \<and> shown w' = shown w))
   \<and> (files (disk w) LEARNED_FILE \<noteq> None \<and> current w = Some c \<longrightarrow>
        (\<exists>w'. learning_mode e True w = (Raise OSError, w')
           \<and> disk w' = disk w \<and> shown w' = shown w))
   \<and> (files (disk w) LEARNED_FILE \<noteq> None \<and> selectbox (learned w) i = Some t
        \<and> map_of (words w) t \<noteq> None \<longrightarrow>
        (\<exists>w'. review_mode e i True w = (Raise OSError, w')
           \<and> disk w' = disk w \<and> shown w' = shown w))
   \<and> (files (disk w) WORDS_FILE \<noteq> None \<and> map_rows pages = Inr rows \<longrightarrow>
        sync_session e (Results pages) w = (Raise OSError, w))"
proof (intro conjI impI)
  assume "files f p \<noteq> None"
  with assms show "json_dump e p v f = Inl OSError"
    by (simp add: json_dump_def)
next
  assume "files (disk w) WORDS_FILE \<noteq> None \<and> new_word \<noteq> [] \<and> new_mean \<noteq> []"
  with assms show "\<exists>w'. add_handler e (new_word, new_mean, new_memo, True) w = (Raise OSError, w')
      \<and> disk w' = disk w \<and> shown w' = shown w"
    by (simp add: add_handler_def save_words_def json_dump_def)
next
  assume "files (disk w) WORDS_FILE \<noteq> None \<and> t \<in> set (dict_keys (words w))"
  with assms show "\<exists>w'. delete_handler e e2 (Some t, True) w = (Raise OSError, w')
      \<and> disk w' = disk w \<and> shown w' = shown w"
    by (simp add: delete_handler_def save_words_def json_dump_def)
next
  assume a: "files (disk w) LEARNED_FILE \<noteq> None \<and> t \<in> set (dict_keys (words w)) \<and> copy_ok e1"
  let ?ws = "dict_pop t (words w)"
  let ?ls = "filter (\<lambda>x. x \<noteq> t) (learned w)"
  from a save_words_ok [of e1 ?ws "disk w"] obtain f1
    where f1: "save_words e1 ?ws (disk w) = Inr f1"
      "files f1 = (files (disk w))(WORDS_FILE \<mapsto> JDict ?ws)" by blast
  from a f1(2) assms have "save_learned e ?ls f1 = Inl OSError"
    by (simp add: save_learned_def json_dump_def)
  with a f1 show "\<exists>w'. delete_handler e1 e (Some t, True) w = (Raise OSError, w')
      \<and> files (disk w') LEARNED_FILE = files (disk w) LEARNED_FILE \<and> shown w' = shown w"
    by (simp add: delete_handler_def)
next
  assume a: "files (disk w) LEARNED_FILE \<noteq> None \<and> current w = Some c"
  then obtain cs where q: "queue w = c # cs"
    by (auto simp add: current_def split: list.splits)
  then have "c \<in> set (queue w)" by simp
  then obtain ent where "map_of (words w) c = Some ent"
    using queue_in_words by blast
  with a q assms show "\<exists>w'. learning_mode e True w = (Raise OSError, w')
      \<and> disk w' = disk w \<and> shown w' = shown w"
    by (simp add: learning_mode_def mark_learned_def save_learned_def json_dump_def)
next
  assume a: "files (disk w) LEARNED_FILE \<noteq> None \<and> selectbox (learned w) i = Some t
      \<and> map_of (words w) t \<noteq> None"
  then have "t \<in> set (learned w)"
    using selectbox_mem [of "learned w" i t] by simp
  with a assms show "\<exists>w'. review_mode e i True w = (Raise OSError, w')
      \<and> disk w' = disk w \<and> shown w' = shown w"
    by (auto simp add: review_mode_def mark_unlearned_def list_remove_def save_learned_def
        json_dump_def)
next
  assume "files (disk w) WORDS_FILE \<noteq> None \<and> map_rows pages = Inr rows"
  with assms show "sync_session e (Results pages) w = (Raise OSError, w)"
    by (simp add: sync_session_def sync_from_notion_def fetch_notion_rows_def save_words_def
        json_dump_def)
qed

theorem json_dump_copy_fails_witness:
  "json_dump \<lparr>now = \<lparr>year = 2024, month = 1, day = 2, hour = 3, minute = 4, second = 5\<rparr>, copy_ok = False\<rparr> WORDS_FILE (JDict []) \<lparr>files = (\<lambda>p. Some (JList [''cat''])), backups = []\<rparr> = Inl OSError
   \<and> (\<exists>w'. add_handler \<lparr>now = \<lparr>year = 2024, month = 1, day = 2, hour = 3, minute = 4, second = 5\<rparr>, copy_ok = False\<rparr> (''dog'', ''a canine'', '''', True) \<lparr>words = [(''cat'', \<lparr>meaning = ''a feline'', memo = ''''\<rparr>)], learned = [], disk = \<lparr>files = (\<lambda>p. Some (JList [''cat''])), backups = []\<rparr>, shown = []\<rparr> = (Raise OSError, w')
        \<and> disk w' = \<lparr>files = (\<lambda>p. Some (JList [''cat''])), backups = []\<rparr> \<and> shown w' = [])
   \<and> (\<exists>w'. learning_mode \<lparr>now = \<lparr>year = 2024, month = 1, day = 2, hour = 3, minute = 4, second = 5\<rparr>, copy_ok = False\<rparr> True \<lparr>words = [(''cat'', \<lparr>meaning = ''a feline'', memo = ''''\<rparr>)], learned = [], disk = \<lparr>files = (\<lambda>p. Some (JList [''cat''])), backups = []\<rparr>, shown = []\<rparr> = (Raise OSError, w')
        \<and> disk w' = \<lparr>files = (\<lambda>p. Some (JList [''cat''])), backups = []\<rparr>)"
proof -
  have c: "\<not> copy_ok \<lparr>now = \<lparr>year = 2024, month = 1, day = 2, hour = 3, minute = 4, second = 5\<rparr>, copy_ok = False\<rparr>"
    by simp
  have cur: "current \<lparr>words = [(''cat'', \<lparr>meaning = ''a feline'', memo = ''''\<rparr>)], learned = [], disk = \<lparr>files = (\<lambda>p. Some (JList [''cat''])), backups = []\<rparr>, shown = []\<rparr> = Some ''cat''"
    by (simp add: current_def queue_def dict_keys_def)
  from cur json_dump_copy_fails [OF c, of "\<lparr>files = (\<lambda>p. Some (JList [''cat''])), backups = []\<rparr>" WORDS_FILE "JDict []"
      "\<lparr>words = [(''cat'', \<lparr>meaning = ''a feline'', memo = ''''\<rparr>)], learned = [], disk = \<lparr>files = (\<lambda>p. Some (JList [''cat''])), backups = []\<rparr>, shown = []\<rparr>" "''dog''" "''a canine''" "''''" "''cat''" e e "''cat''" 0 "[]" "[]"]
  show ?thesis by auto
qed

section \<open>Adding a word\<close>

text \<open>
  C2, as the code has it. The add handler tests the button and, for emptiness only, the
  two fields. When the word or the meaning is the empty string, or the button was not
  clicked, the handler changes nothing, shows nothing and raises nothing. When the button
  was clicked and both fields are non-empty (blank strings included), the entry is
  inserted or overwritten in the repository in memory. Then, if the words file does not
  exist yet or its backup copy succeeds, the repository is written to the words file in
  the same step and the success message is shown; if the backup copy raises, the
  exception leaves the handler with the entry in memory, the file system as it was and
  no message shown.
\<close>

theorem add_handler_guard:
  "(new_word = [] \<or> new_mean = [] \<or> \<not> clicked \<longrightarrow>
      add_handler e (new_word, new_mean, new_memo, clicked) w = (Return (), w))
   \<and> (new_word \<noteq> [] \<and> new_mean \<noteq> [] \<and> clicked
        \<and> (copy_ok e \<or> files (disk w) WORDS_FILE = None) \<longrightarrow>
      (\<exists>w'. add_handler e (new_word, new_mean, new_memo, clicked) w = (Return (), w')
         \<and> words w' = dict_setitem new_word \<lparr>meaning = new_mean, memo = new_memo\<rparr> (words w)
         \<and> files (disk w') WORDS_FILE = Some (JDict (words w'))
         \<and> files (disk w') LEARNED_FILE = files (disk w) LEARNED_FILE
         \<and> learned w' = learned w
         \<and> shown w' = shown w @ [AddedMsg new_word]))
   \<and> (new_word \<noteq> [] \<and> new_mean \<noteq> [] \<and> clicked
        \<and> \<not> copy_ok e \<and> files (disk w) WORDS_FILE \<noteq> None \<longrightarrow>
      add_handler e (new_word, new_mean, new_memo, clicked) w
        = (Raise OSError,
           w\<lparr>words := dict_setitem new_word \<lparr>meaning = new_mean, memo = new_memo\<rparr> (words w)\<rparr>))"
proof (intro conjI impI)
  assume "new_word = [] \<or> new_mean = [] \<or> \<not> clicked"
  then show "add_handler e (new_word, new_mean, new_memo, clicked) w = (Return (), w)"
    by (auto simp add: add_handler_def)
next
  assume a: "new_word \<noteq> [] \<and> new_mean \<noteq> [] \<and> clicked
      \<and> (copy_ok e \<or> files (disk w) WORDS_FILE = None)"
  let ?ws = "dict_setitem new_word \<lparr>meaning = new_mean, memo = new_memo\<rparr> (words w)"
  from a save_words_written [of e "disk w" ?ws] obtain f'
    where f': "save_words e ?ws (disk w) = Inr f'"
      "files f' = (files (disk w))(WORDS_FILE \<mapsto> JDict ?ws)" by blast
  with a show "\<exists>w'. add_handler e (new_word, new_mean, new_memo, clicked) w = (Return (), w')
         \<and> words w' = ?ws
         \<and> files (disk w') WORDS_FILE = Some (JDict (words w'))
         \<and> files (disk w') LEARNED_FILE = files (disk w) LEARNED_FILE
         \<and> learned w' = learned w
         \<and> shown w' = shown w @ [AddedMsg new_word]"
    by (simp add: add_handler_def st_show_def)
next
  assume a: "new_word \<noteq> [] \<and> new_mean \<noteq> [] \<and> clicked
      \<and> \<not> copy_ok e \<and> files (disk w) WORDS_FILE \<noteq> None"
  then show "add_handler e (new_word, new_mean, new_memo, clicked) w
        = (Raise OSError,
           w\<lparr>words := dict_setitem new_word \<lparr>meaning = new_mean, memo = new_memo\<rparr> (words w)\<rparr>)"
    by (simp add: add_handler_def save_words_def json_dump_def)
qed

theorem add_handler_whitespace_counterexample:
  "add_handler
      \<lparr>now = \<lparr>year = 2024, month = 1, day = 2, hour = 3, minute = 4, second = 5\<rparr>, copy_ok = True\<rparr>
      ('' '', ''x'', '''', True)
      \<lparr>words = [], learned = [], disk = \<lparr>files = (\<lambda>p. None), backups = []\<rparr>, shown = []\<rparr>
   = (Return (),
      \<lparr>words = [('' '', \<lparr>meaning = ''x'', memo = ''''\<rparr>)], learned = [],
        disk = \<lparr>files = (\<lambda>p. None)(WORDS_FILE \<mapsto> JDict [('' '', \<lparr>meaning = ''x'', memo = ''''\<rparr>)]),
                backups = []\<rparr>,
        shown = [AddedMsg '' '']\<rparr>)"
  by (simp add: add_handler_def dict_setitem_def save_words_def json_dump_def st_show_def
      write_text_def)

theorem add_handler_guard_witness:
  "add_handler \<lparr>now = \<lparr>year = 2024, month = 1, day = 2, hour = 3, minute = 4, second = 5\<rparr>, copy_ok = True\<rparr> ('''', ''meaning'', '''', True) \<lparr>words = [], learned = [], disk = \<lparr>files = (\<lambda>p. None), backups = []\<rparr>, shown = []\<rparr> = (Return (), \<lparr>words = [], learned = [], disk = \<lparr>files = (\<lambda>p. None), backups = []\<rparr>, shown = []\<rparr>)
   \<and> add_handler \<lparr>now = \<lparr>year = 2024, month = 1, day = 2, hour = 3, minute = 4, second = 5\<rparr>, copy_ok = True\<rparr> (''cat'', ''a feline'', '''', False) \<lparr>words = [], learned = [], disk = \<lparr>files = (\<lambda>p. None), backups = []\<rparr>, shown = []\<rparr> = (Return (), \<lparr>words = [], learned = [], disk = \<lparr>files = (\<lambda>p. None), backups = []\<rparr>, shown = []\<rparr>)
   \<and> (\<exists>w'. add_handler \<lparr>now = \<lparr>year = 2024, month = 1, day = 2, hour = 3, minute = 4, second = 5\<rparr>, copy_ok = True\<rparr> (''cat'', ''a feline'', '''', True) \<lparr>words = [], learned = [], disk = \<lparr>files = (\<lambda>p. None), backups = []\<rparr>, shown = []\<rparr> = (Return (), w')
      \<and> words w' = [(''cat'', \<lparr>meaning = ''a feline'', memo = ''''\<rparr>)]
      \<and> files (disk w') WORDS_FILE = Some (JDict [(''cat'', \<lparr>meaning = ''a feline'', memo = ''''\<rparr>)])
      \<and> shown w' = [AddedMsg ''cat''])
   \<and> add_handler \<lparr>now = \<lparr>year = 2024, month = 1, day = 2, hour = 3, minute = 4, second = 5\<rparr>, copy_ok = False\<rparr> (''cat'', ''a feline'', '''', True) \<lparr>words = [], learned = [], disk = \<lparr>files = (\<lambda>p. Some (JDict [])), backups = []\<rparr>, shown = []\<rparr>
      = (Raise OSError,
         \<lparr>words = [(''cat'', \<lparr>meaning = ''a feline'', memo = ''''\<rparr>)], learned = [],
           disk = \<lparr>files = (\<lambda>p. Some (JDict [])), backups = []\<rparr>, shown = []\<rparr>)"
  using add_handler_guard [of "''''" "''meaning''" True "\<lparr>now = \<lparr>year = 2024, month = 1, day = 2, hour = 3, minute = 4, second = 5\<rparr>, copy_ok = True\<rparr>" "''''" "\<lparr>words = [], learned = [], disk = \<lparr>files = (\<lambda>p. None), backups = []\<rparr>, shown = []\<rparr>"]
    add_handler_guard [of "''cat''" "''a feline''" False "\<lparr>now = \<lparr>year = 2024, month = 1, day = 2, hour = 3, minute = 4, second = 5\<rparr>, copy_ok = True\<rparr>" "''''" "\<lparr>words = [], learned = [], disk = \<lparr>files = (\<lambda>p. None), backups = []\<rparr>, shown = []\<rparr>"]
    add_handler_guard [of "''cat''" "''a feline''" True "\<lparr>now = \<lparr>year = 2024, month = 1, day = 2, hour = 3, minute = 4, second = 5\<rparr>, copy_ok = True\<rparr>" "''''" "\<lparr>words = [], learned = [], disk = \<lparr>files = (\<lambda>p. None), backups = []\<rparr>, shown = []\<rparr>"]
    add_handler_guard [of "''cat''" "''a feline''" True "\<lparr>now = \<lparr>year = 2024, month = 1, day = 2, hour = 3, minute = 4, second = 5\<rparr>, copy_ok = False\<rparr>" "''''" "\<lparr>words = [], learned = [], disk = \<lparr>files = (\<lambda>p. Some (JDict [])), backups = []\<rparr>, shown = []\<rparr>"]
  by (auto simp add: dict_setitem_def)

section \<open>Deleting a word\<close>

text \<open>
  C6. Deleting a word that is in the repository, with both backup copies succeeding,
  removes it from the repository and removes every occurrence of it from the learned
  list; the new repository and the new learned list are both written to their files.
  If every learned word was in the repository before, this still holds afterwards.
\<close>

theorem delete_handler_cascade:
  assumes "t \<in> set (dict_keys (words w))" and "copy_ok e1" and "copy_ok e2"
  shows "\<exists>w'. delete_handler e1 e2 (Some t, True) w = (Return (), w')
     \<and> words w' = dict_pop t (words w)
     \<and> learned w' = filter (\<lambda>x. x \<noteq> t) (learned w)
     \<and> t \<notin> set (dict_keys (words w'))
     \<and> t \<notin> set (learned w')
     \<and> files (disk w') WORDS_FILE = Some (JDict (words w'))
     \<and> files (disk w') LEARNED_FILE = Some (JList (learned w'))
     \<and> (set (learned w) \<subseteq> set (dict_keys (words w))
          \<longrightarrow> set (learned w') \<subseteq> set (dict_keys (words w')))"
proof -
  let ?ws = "dict_pop t (words w)"
  let ?ls = "filter (\<lambda>x. x \<noteq> t) (learned w)"
  from save_words_ok [OF assms(2), of ?ws "disk w"] obtain f1
    where f1: "save_words e1 ?ws (disk w) = Inr f1"
      "files f1 = (files (disk w))(WORDS_FILE \<mapsto> JDict ?ws)" by blast
  from save_learned_ok [OF assms(3), of ?ls f1] obtain f2
    where f2: "save_learned e2 ?ls f1 = Inr f2"
      "files f2 = (files f1)(LEARNED_FILE \<mapsto> JList ?ls)" by blast
  have keys: "set (dict_keys ?ws) = set (dict_keys (words w)) - {t}"
    by (simp add: dict_keys_def dict_pop_def delete_keys)
  have run: "delete_handler e1 e2 (Some t, True) w
      = (Return (), st_show (DeletedMsg t) (w\<lparr>words := ?ws, learned := ?ls, disk := f2\<rparr>))"
    using assms(1) f1(1) f2(1) by (simp add: delete_handler_def)
  show ?thesis
    unfolding run using keys f1(2) f2(2) by (auto simp add: st_show_def)
qed

theorem delete_handler_cascade_witness:
  "\<exists>w'. delete_handler
      \<lparr>now = \<lparr>year = 2024, month = 1, day = 2, hour = 3, minute = 4, second = 5\<rparr>, copy_ok = True\<rparr>
      \<lparr>now = \<lparr>year = 2024, month = 1, day = 2, hour = 3, minute = 4, second = 5\<rparr>, copy_ok = True\<rparr>
      (Some ''cat'', True)
      \<lparr>words = [(''cat'', \<lparr>meaning = ''a feline'', memo = ''''\<rparr>)], learned = [''cat''],
        disk = \<lparr>files = (\<lambda>p. None), backups = []\<rparr>, shown = []\<rparr> = (Return (), w')
     \<and> words w' = [] \<and> learned w' = []"
proof -
  have "''cat'' \<in> set (dict_keys (words \<lparr>words = [(''cat'', \<lparr>meaning = ''a feline'', memo = ''''\<rparr>)],
      learned = [''cat''], disk = \<lparr>files = (\<lambda>p. None), backups = []\<rparr>, shown = []\<rparr>))"
    by (simp add: dict_keys_def)
  from delete_handler_cascade [OF this, of
      "\<lparr>now = \<lparr>year = 2024, month = 1, day = 2, hour = 3, minute = 4, second = 5\<rparr>, copy_ok = True\<rparr>"
      "\<lparr>now = \<lparr>year = 2024, month = 1, day = 2, hour = 3, minute = 4, second = 5\<rparr>, copy_ok = True\<rparr>"]
  show ?thesis by (auto simp add: dict_pop_def)
qed

section \<open>A failed fetch\<close>

text \<open>
  C9. When the query ends in an \<^verbatim>\<open>APIResponseError\<close> the error is shown and the script
  is halted; when the remote side is not reached the exception leaves the script. In
  both cases the repository, the learned list and the file system are those from before
  the synchronisation: in a starting session, the state just loaded from the files.
\<close>

theorem fetch_failure_leaves_state:
  "sync_session e (APIResponseError status code m) w = (Stop, st_show (ApiErrorMsg status code m) w)
   \<and> words (st_show (ApiErrorMsg status code m) w) = words w
   \<and> learned (st_show (ApiErrorMsg status code m) w) = learned w
   \<and> disk (st_show (ApiErrorMsg status code m) w) = disk w
   \<and> shown (st_show (ApiErrorMsg status code m) w) = shown w @ [ApiErrorMsg status code m]
   \<and> sync_session e Unreachable w = (Raise TransportError, w)
   \<and> (load_session f = Inr w \<longrightarrow>
        session_init e (APIResponseError status code m) f
          = Inr (Stop, st_show (ApiErrorMsg status code m) w)
        \<and> session_init e Unreachable f = Inr (Raise TransportError, w))"
  by (simp add: sync_session_def sync_from_notion_def fetch_notion_rows_def st_show_def
      session_init_def)

theorem fetch_failure_leaves_state_witness:
  "session_init
      \<lparr>now = \<lparr>year = 2024, month = 1, day = 2, hour = 3, minute = 4, second = 5\<rparr>, copy_ok = True\<rparr>
      (APIResponseError 401 ''unauthorized'' ''API token is invalid.'')
      \<lparr>files = (\<lambda>p. case p of WORDS_FILE \<Rightarrow> Some (JDict []) | LEARNED_FILE \<Rightarrow> Some (JList [])),
        backups = []\<rparr>
    = Inr (Stop, \<lparr>words = [], learned = [],
        disk = \<lparr>files = (\<lambda>p. case p of WORDS_FILE \<Rightarrow> Some (JDict []) | LEARNED_FILE \<Rightarrow> Some (JList [])),
          backups = []\<rparr>,
        shown = [ApiErrorMsg 401 ''unauthorized'' ''API token is invalid.'']\<rparr>)"
proof -
  have l: "load_session \<lparr>files = (\<lambda>p. case p of WORDS_FILE \<Rightarrow> Some (JDict []) | LEARNED_FILE \<Rightarrow> Some (JList [])),
        backups = []\<rparr> = Inr \<lparr>words = [], learned = [],
        disk = \<lparr>files = (\<lambda>p. case p of WORDS_FILE \<Rightarrow> Some (JDict []) | LEARNED_FILE \<Rightarrow> Some (JList [])),
          backups = []\<rparr>, shown = []\<rparr>"
    by (simp add: load_session_def load_words_def load_learned_def)
  show ?thesis
    using l fetch_failure_leaves_state [of
      "\<lparr>now = \<lparr>year = 2024, month = 1, day = 2, hour = 3, minute = 4, second = 5\<rparr>, copy_ok = True\<rparr>"
      401 "''unauthorized''" "''API token is invalid.''"
      "\<lparr>words = [], learned = [],
        disk = \<lparr>files = (\<lambda>p. case p of WORDS_FILE \<Rightarrow> Some (JDict []) | LEARNED_FILE \<Rightarrow> Some (JList [])),
          backups = []\<rparr>, shown = []\<rparr>"
      "\<lparr>files = (\<lambda>p. case p of WORDS_FILE \<Rightarrow> Some (JDict []) | LEARNED_FILE \<Rightarrow> Some (JList [])),
        backups = []\<rparr>"]
    by (simp add: st_show_def)
qed

section \<open>Merging the remote rows\<close>

lemma dict_ior_Nil: "dict_ior d [] = d"
  by (simp add: dict_ior_def)

lemma dict_ior_Cons: "dict_ior d (kv # r) = dict_ior (dict_setitem (fst kv) (snd kv) d) r"
  by (simp add: dict_ior_def)

lemma dict_ior_other_key:
  "k \<notin> fst ` set r \<Longrightarrow> map_of (dict_ior d r) k = map_of d k"
proof (induction r arbitrary: d)
  case Nil
  then show ?case by (simp add: dict_ior_Nil)
next
  case (Cons kv r)
  then show ?case by (simp add: dict_ior_Cons dict_setitem_def update_conv')
qed

lemma dict_ior_fixed:
  "\<forall>kv \<in> set r. map_of d (fst kv) = Some (snd kv) \<Longrightarrow> dict_ior d r = d"
proof (induction r)
  case Nil
  then show ?case by (simp add: dict_ior_Nil)
next
  case (Cons kv r)
  then show ?case by (simp add: dict_ior_Cons dict_setitem_def update_triv)
qed

lemma dict_ior_holds_other:
  "distinct (map fst r) \<Longrightarrow> \<forall>kv \<in> set r. map_of (dict_ior d r) (fst kv) = Some (snd kv)"
proof (induction r arbitrary: d)
  case Nil
  then show ?case by simp
next
  case (Cons kv r)
  have hd: "map_of (dict_ior d (kv # r)) (fst kv) = Some (snd kv)"
    using Cons.prems
    by (simp add: dict_ior_Cons dict_ior_other_key dict_setitem_def update_conv')
  have tl: "\<forall>x \<in> set r. map_of (dict_ior d (kv # r)) (fst x) = Some (snd x)"
    using Cons.IH [of "dict_setitem (fst kv) (snd kv) d"] Cons.prems
    by (simp add: dict_ior_Cons)
  from hd tl show ?case by simp
qed

lemma distinct_foldl_setitem:
  "distinct (map fst d) \<Longrightarrow>
   distinct (map fst (foldl (\<lambda>acc row. dict_setitem (fst row) (snd row) acc) d rows))"
  by (induction rows arbitrary: d) (simp_all add: dict_setitem_def distinct_update)

lemma distinct_from_rows: "distinct (map fst (from_rows rows))"
  unfolding from_rows_def by (rule distinct_foldl_setitem) simp

lemma dict_ior_idem: "dict_ior (dict_ior d (from_rows rows)) (from_rows rows) = dict_ior d (from_rows rows)"
  by (rule dict_ior_fixed) (rule dict_ior_holds_other [OF distinct_from_rows])

lemma sync_session_ok:
  assumes "copy_ok e" and "map_rows pages = Inr rows"
  shows "\<exists>f. save_words e (from_rows rows) (disk w) = Inr f
     \<and> files f = (files (disk w))(WORDS_FILE \<mapsto> JDict (from_rows rows))
     \<and> sync_session e (Results pages) w
        = (Return (), w\<lparr>disk := f, words := dict_ior (words w) (from_rows rows)\<rparr>)"
proof -
  from save_words_ok [OF assms(1), of "from_rows rows" "disk w"] obtain f
    where f: "save_words e (from_rows rows) (disk w) = Inr f"
      "files f = (files (disk w))(WORDS_FILE \<mapsto> JDict (from_rows rows))" by blast
  then show ?thesis
    using assms(2) by (simp add: sync_session_def sync_from_notion_def fetch_notion_rows_def)
qed

text \<open>
  C8. Running the synchronisation step a second time with the same rows, both saves
  succeeding, leaves the repository in memory and the content of the words file as
  they were after the first run.
\<close>

theorem sync_session_twice:
  assumes "copy_ok e1" and "copy_ok e2" and "map_rows pages = Inr rows"
  shows "\<exists>w1 w2. sync_session e1 (Results pages) w = (Return (), w1)
     \<and> sync_session e2 (Results pages) w1 = (Return (), w2)
     \<and> words w2 = words w1
     \<and> files (disk w2) WORDS_FILE = files (disk w1) WORDS_FILE
     \<and> learned w2 = learned w1"
proof -
  from sync_session_ok [OF assms(1) assms(3), of w] obtain f1 where
    f1: "files f1 = (files (disk w))(WORDS_FILE \<mapsto> JDict (from_rows rows))"
    and s1: "sync_session e1 (Results pages) w
        = (Return (), w\<lparr>disk := f1, words := dict_ior (words w) (from_rows rows)\<rparr>)"
    by blast
  let ?w1 = "w\<lparr>disk := f1, words := dict_ior (words w) (from_rows rows)\<rparr>"
  from sync_session_ok [OF assms(2) assms(3), of ?w1] obtain f2 where
    f2: "files f2 = (files (disk ?w1))(WORDS_FILE \<mapsto> JDict (from_rows rows))"
    and s2: "sync_session e2 (Results pages) ?w1
        = (Return (), ?w1\<lparr>disk := f2, words := dict_ior (words ?w1) (from_rows rows)\<rparr>)"
    by blast
  show ?thesis
    using s1 s2 f1 f2 by (simp add: dict_ior_idem)
qed

theorem sync_session_twice_witness:
  "\<exists>w1 w2. sync_session
        \<lparr>now = \<lparr>year = 2024, month = 1, day = 2, hour = 3, minute = 4, second = 5\<rparr>, copy_ok = True\<rparr>
        (Results [\<lparr>p_word = Some [''cat''], p_mean = Some [''X''], p_memo = Some []\<rparr>])
        \<lparr>words = [(''dog'', \<lparr>meaning = ''a canine'', memo = ''m''\<rparr>)], learned = [],
          disk = \<lparr>files = (\<lambda>p. None), backups = []\<rparr>, shown = []\<rparr> = (Return (), w1)
     \<and> sync_session
        \<lparr>now = \<lparr>year = 2024, month = 1, day = 2, hour = 3, minute = 4, second = 6\<rparr>, copy_ok = True\<rparr>
        (Results [\<lparr>p_word = Some [''cat''], p_mean = Some [''X''], p_memo = Some []\<rparr>])
        w1 = (Return (), w2)
     \<and> words w2 = words w1
     \<and> files (disk w2) WORDS_FILE = files (disk w1) WORDS_FILE"
proof -
  have rows: "map_rows [\<lparr>p_word = Some [''cat''], p_mean = Some [''X''], p_memo = Some []\<rparr>]
      = Inr [(''cat'', \<lparr>meaning = ''X'', memo = []\<rparr>)]"
    by (simp add: page_row_def)
  have c1: "copy_ok \<lparr>now = \<lparr>year = 2024, month = 1, day = 2, hour = 3, minute = 4, second = 5\<rparr>, copy_ok = True\<rparr>"
    by simp
  have c2: "copy_ok \<lparr>now = \<lparr>year = 2024, month = 1, day = 2, hour = 3, minute = 4, second = 6\<rparr>, copy_ok = True\<rparr>"
    by simp
  from sync_session_twice [OF c1 c2 rows, of
      "\<lparr>words = [(''dog'', \<lparr>meaning = ''a canine'', memo = ''m''\<rparr>)], learned = [],
          disk = \<lparr>files = (\<lambda>p. None), backups = []\<rparr>, shown = []\<rparr>"]
  show ?thesis by blast
qed

section \<open>What the synchronisation persists\<close>

text \<open>
  C1, evaluated on the code. A session holds the local word \<open>dog\<close>, in memory and in
  the words file, and the remote table has the one row \<open>cat\<close>. After the
  synchronisation the repository in memory is the merged one (\<open>dog\<close> kept, \<open>cat\<close>
  added), but the words file holds the remote rows only: \<^verbatim>\<open>sync_from_notion\<close> saves
  the dictionary it built from the rows, before the caller merges it.
\<close>

theorem sync_persists_remote_only:
  "\<exists>w'. sync_session
        \<lparr>now = \<lparr>year = 2024, month = 1, day = 2, hour = 3, minute = 4, second = 5\<rparr>, copy_ok = True\<rparr>
        (Results [\<lparr>p_word = Some [''cat''], p_mean = Some [''X''], p_memo = Some []\<rparr>])
        \<lparr>words = [(''dog'', \<lparr>meaning = ''a canine'', memo = ''m''\<rparr>)], learned = [],
          disk = \<lparr>files = (\<lambda>p. case p of
                     WORDS_FILE \<Rightarrow> Some (JDict [(''dog'', \<lparr>meaning = ''a canine'', memo = ''m''\<rparr>)])
                   | LEARNED_FILE \<Rightarrow> Some (JList [])),
                  backups = []\<rparr>, shown = []\<rparr> = (Return (), w')
     \<and> words w' = [(''dog'', \<lparr>meaning = ''a canine'', memo = ''m''\<rparr>),
                   (''cat'', \<lparr>meaning = ''X'', memo = []\<rparr>)]
     \<and> files (disk w') WORDS_FILE = Some (JDict [(''cat'', \<lparr>meaning = ''X'', memo = []\<rparr>)])"
proof -
  have rows: "map_rows [\<lparr>p_word = Some [''cat''], p_mean = Some [''X''], p_memo = Some []\<rparr>]
      = Inr [(''cat'', \<lparr>meaning = ''X'', memo = []\<rparr>)]"
    by (simp add: page_row_def)
  have fr: "from_rows [(''cat'', \<lparr>meaning = ''X'', memo = []\<rparr>)] = [(''cat'', \<lparr>meaning = ''X'', memo = []\<rparr>)]"
    by (simp add: from_rows_def dict_setitem_def)
  have c1: "copy_ok \<lparr>now = \<lparr>year = 2024, month = 1, day = 2, hour = 3, minute = 4, second = 5\<rparr>, copy_ok = True\<rparr>"
    by simp
  from sync_session_ok [OF c1 rows, of
      "\<lparr>words = [(''dog'', \<lparr>meaning = ''a canine'', memo = ''m''\<rparr>)], learned = [],
          disk = \<lparr>files = (\<lambda>p. case p of
                     WORDS_FILE \<Rightarrow> Some (JDict [(''dog'', \<lparr>meaning = ''a canine'', memo = ''m''\<rparr>)])
                   | LEARNED_FILE \<Rightarrow> Some (JList [])),
                  backups = []\<rparr>, shown = []\<rparr>"]
  show ?thesis by (auto simp add: fr dict_ior_def dict_setitem_def)
qed

section \<open>Learning mode\<close>








section \<open>Review mode\<close>




section \<open>The name of a snapshot\<close>

lemma digit_simps:
  "digit 0 = CHR ''0''" "digit 1 = CHR ''1''" "digit 2 = CHR ''2''" "digit 3 = CHR ''3''"
  "digit 4 = CHR ''4''" "digit 5 = CHR ''5''" "digit 6 = CHR ''6''" "digit 7 = CHR ''7''"
  "digit 8 = CHR ''8''" "digit 9 = CHR ''9''" "digit (Suc 0) = CHR ''1''"
  by (simp_all add: digit_def char_of_def bit_0)

lemma dec_small: "n < 10 \<Longrightarrow> dec n = [digit n]"
  by (simp add: dec.simps)

lemma dec_large: "10 \<le> n \<Longrightarrow> dec n = dec (n div 10) @ [digit (n mod 10)]"
  by (subst dec.simps) simp

lemma zfill2_dec:
  assumes "n < 100"
  shows "zfill 2 (dec n) = [digit (n div 10), digit (n mod 10)]"
proof (cases "n < 10")
  case True
  then show ?thesis by (simp add: dec_small zfill_def digit_simps)
next
  case False
  then have "10 \<le> n" by simp
  moreover from assms have "n div 10 < 10" by simp
  ultimately show ?thesis by (simp add: dec_large dec_small zfill_def)
qed

lemma zfill4_dec:
  assumes "1000 \<le> n" and "n \<le> 9999"
  shows "zfill 4 (dec n)
     = [digit (n div 1000), digit (n div 100 mod 10), digit (n div 10 mod 10), digit (n mod 10)]"
proof -
  have a: "10 \<le> n" "10 \<le> n div 10" "10 \<le> n div 100" "n div 1000 < 10"
    using assms by simp_all
  have d1: "dec n = dec (n div 10) @ [digit (n mod 10)]"
    using a(1) by (rule dec_large)
  have e2: "n div 10 div 10 = n div 100"
    using div_mult2_eq [of n 10 10] by simp
  have e3: "n div 100 div 10 = n div 1000"
    using div_mult2_eq [of n 100 10] by simp
  have d2: "dec (n div 10) = dec (n div 100) @ [digit (n div 10 mod 10)]"
    using dec_large [OF a(2)] by (simp add: e2)
  have d3: "dec (n div 100) = dec (n div 1000) @ [digit (n div 100 mod 10)]"
    using dec_large [OF a(3)] by (simp add: e3)
  have d4: "dec (n div 1000) = [digit (n div 1000)]"
    using a(4) by (rule dec_small)
  show ?thesis by (simp add: d1 d2 d3 d4 zfill_def)
qed

lemma strftime_digits:
  assumes "valid_dt t"
  shows "strftime t =
     [digit (year t div 1000), digit (year t div 100 mod 10), digit (year t div 10 mod 10),
      digit (year t mod 10), CHR ''-'',
      digit (month t div 10), digit (month t mod 10), CHR ''-'',
      digit (day t div 10), digit (day t mod 10), CHR ''_'',
      digit (hour t div 10), digit (hour t mod 10),
      digit (minute t div 10), digit (minute t mod 10),
      digit (second t div 10), digit (second t mod 10)]"
proof -
  from assms have "zfill 4 (dec (year t))
      = [digit (year t div 1000), digit (year t div 100 mod 10), digit (year t div 10 mod 10),
         digit (year t mod 10)]"
    by (intro zfill4_dec) (simp_all add: valid_dt_def)
  moreover from assms have "zfill 2 (dec (month t)) = [digit (month t div 10), digit (month t mod 10)]"
    by (intro zfill2_dec) (simp add: valid_dt_def)
  moreover from assms have "zfill 2 (dec (day t)) = [digit (day t div 10), digit (day t mod 10)]"
    by (intro zfill2_dec) (simp add: valid_dt_def)
  moreover from assms have "zfill 2 (dec (hour t)) = [digit (hour t div 10), digit (hour t mod 10)]"
    by (intro zfill2_dec) (simp add: valid_dt_def)
  moreover from assms have "zfill 2 (dec (minute t)) = [digit (minute t div 10), digit (minute t mod 10)]"
    by (intro zfill2_dec) (simp add: valid_dt_def)
  moreover from assms have "zfill 2 (dec (second t)) = [digit (second t div 10), digit (second t mod 10)]"
    by (intro zfill2_dec) (simp add: valid_dt_def)
  ultimately show ?thesis by (simp add: strftime_def)
qed

lemma length_strftime: "valid_dt t \<Longrightarrow> length (strftime t) = 17"
  by (simp add: strftime_digits)

lemma glob_match_snap_name:
  assumes "valid_dt t"
  shows "glob_match st (snap_name st t)"
  using length_strftime [OF assms] by (simp add: glob_match_def snap_name_def)

lemma backups_fold_unlink:
  "map_of (backups (fold unlink ns f)) n = (if n \<in> set ns then None else map_of (backups f) n)"
  by (induction ns arbitrary: f) (simp_all add: unlink_def delete_conv')

text \<open>
  C5, as the code has it. A save over an existing store file whose backup copy succeeds
  first copies the file, with the content it has before the save, to the backup
  directory, then trims the store's snapshots, then overwrites the file. The name of
  the snapshot is the stem of the file (\<^verbatim>\<open>words\<close>, \<^verbatim>\<open>learned_words\<close>), an underscore,
  the clock reading as \<^verbatim>\<open>YYYY-MM-DD_HHMMSS\<close> (four digits of the year, a hyphen, two of
  the month, a hyphen, two of the day, an underscore, two each of the hour, the minute
  and the second) and \<^verbatim>\<open>.json\<close>; it matches the pattern of its store. After the save the
  snapshot is in the directory unless the trim of this very save has deleted it, that is
  unless it sorts before the last five names of the store's snapshots.
\<close>

theorem json_dump_snapshot:
  assumes "files f p = Some old" and "copy_ok e" and "valid_dt (now e)"
  shows "\<exists>g f'. g = copy2 p (snap_name (stem p) (now e)) f
     \<and> f' = write_text p v (trim_backups (stem p) 5 g)
     \<and> json_dump e p v f = Inr f'
     \<and> map_of (backups g) (snap_name (stem p) (now e)) = Some old
     \<and> files g p = Some old
     \<and> files f' p = Some v
     \<and> (snap_name (stem p) (now e) \<notin> set (all_but_last 5 (sort (glob (stem p) g)))
          \<longrightarrow> map_of (backups f') (snap_name (stem p) (now e)) = Some old)
     \<and> glob_match (stem p) (snap_name (stem p) (now e))
     \<and> snap_name (stem p) (now e) = stem p @ ''_'' @
         [digit (year (now e) div 1000), digit (year (now e) div 100 mod 10),
          digit (year (now e) div 10 mod 10), digit (year (now e) mod 10), CHR ''-'',
          digit (month (now e) div 10), digit (month (now e) mod 10), CHR ''-'',
          digit (day (now e) div 10), digit (day (now e) mod 10), CHR ''_'',
          digit (hour (now e) div 10), digit (hour (now e) mod 10),
          digit (minute (now e) div 10), digit (minute (now e) mod 10),
          digit (second (now e) div 10), digit (second (now e) mod 10)] @ ''.json''"
proof -
  let ?n = "snap_name (stem p) (now e)"
  let ?g = "copy2 p ?n f"
  let ?f' = "write_text p v (trim_backups (stem p) 5 ?g)"
  have run: "json_dump e p v f = Inr ?f'"
    using assms(1,2) by (simp add: json_dump_def)
  have snap: "map_of (backups ?g) ?n = Some old"
    using assms(1) by (simp add: copy2_def update_conv')
  have old: "files ?g p = Some old"
    using assms(1) by (simp add: files_copy2)
  have new: "files ?f' p = Some v"
    by (simp add: write_text_def)
  have kept: "?n \<notin> set (all_but_last 5 (sort (glob (stem p) ?g)))
      \<longrightarrow> map_of (backups ?f') ?n = Some old"
    using snap by (simp add: write_text_def trim_backups_def backups_fold_unlink)
  have pat: "glob_match (stem p) ?n"
    using assms(3) by (rule glob_match_snap_name)
  have name: "?n = stem p @ ''_'' @
         [digit (year (now e) div 1000), digit (year (now e) div 100 mod 10),
          digit (year (now e) div 10 mod 10), digit (year (now e) mod 10), CHR ''-'',
          digit (month (now e) div 10), digit (month (now e) mod 10), CHR ''-'',
          digit (day (now e) div 10), digit (day (now e) mod 10), CHR ''_'',
          digit (hour (now e) div 10), digit (hour (now e) mod 10),
          digit (minute (now e) div 10), digit (minute (now e) mod 10),
          digit (second (now e) div 10), digit (second (now e) mod 10)] @ ''.json''"
    using strftime_digits [OF assms(3)] by (simp add: snap_name_def)
  from run snap old new kept pat name show ?thesis by blast
qed

theorem json_dump_snapshot_witness:
  "\<exists>f'. json_dump \<lparr>now = \<lparr>year = 2024, month = 1, day = 2, hour = 3, minute = 4, second = 5\<rparr>, copy_ok = True\<rparr> LEARNED_FILE (JList []) \<lparr>files = (\<lambda>p. Some (JList [''cat''])), backups = []\<rparr> = Inr f'
     \<and> files f' LEARNED_FILE = Some (JList [])
     \<and> map_of (backups f') ''learned_words_2024-01-02_030405.json'' = Some (JList [''cat''])"
proof -
  have a: "files \<lparr>files = (\<lambda>p. Some (JList [''cat''])), backups = []\<rparr> LEARNED_FILE = Some (JList [''cat''])"
    by simp
  have c: "copy_ok \<lparr>now = \<lparr>year = 2024, month = 1, day = 2, hour = 3, minute = 4, second = 5\<rparr>, copy_ok = True\<rparr>"
    by simp
  have v: "valid_dt (now \<lparr>now = \<lparr>year = 2024, month = 1, day = 2, hour = 3, minute = 4, second = 5\<rparr>, copy_ok = True\<rparr>)"
    by (simp add: valid_dt_def)
  have n: "snap_name (stem LEARNED_FILE) (now \<lparr>now = \<lparr>year = 2024, month = 1, day = 2, hour = 3, minute = 4, second = 5\<rparr>, copy_ok = True\<rparr>) = ''learned_words_2024-01-02_030405.json''"
    by (simp add: snap_name_def strftime_def zfill_def dec.simps digit_simps)
  have g: "glob (stem LEARNED_FILE) (copy2 LEARNED_FILE ''learned_words_2024-01-02_030405.json'' \<lparr>files = (\<lambda>p. Some (JList [''cat''])), backups = []\<rparr>)
      = [''learned_words_2024-01-02_030405.json'']"
    by (simp add: glob_def copy2_def glob_match_def)
  from json_dump_snapshot [OF a c v, of "JList []"] n g
  show ?thesis by (auto simp add: all_but_last_def)
qed

theorem json_dump_snapshot_counterexample:
  "snap_name (stem WORDS_FILE) (now \<lparr>now = \<lparr>year = 2024, month = 1, day = 2, hour = 3, minute = 4, second = 5\<rparr>, copy_ok = True\<rparr>) = ''words_2024-01-02_030405.json''
   \<and> snap_name (stem WORDS_FILE) (now \<lparr>now = \<lparr>year = 2024, month = 1, day = 2, hour = 3, minute = 4, second = 5\<rparr>, copy_ok = True\<rparr>) \<noteq> ''words_20240102_030405.json''
   \<and> snap_name (stem LEARNED_FILE) (now \<lparr>now = \<lparr>year = 2024, month = 1, day = 2, hour = 3, minute = 4, second = 5\<rparr>, copy_ok = True\<rparr>) = ''learned_words_2024-01-02_030405.json''
   \<and> (\<exists>f'. json_dump \<lparr>now = \<lparr>year = 2024, month = 1, day = 2, hour = 3, minute = 4, second = 5\<rparr>, copy_ok = True\<rparr> WORDS_FILE (JDict []) \<lparr>files = (\<lambda>p. Some (JList [''cat''])), backups = []\<rparr> = Inr f'
        \<and> map fst (backups f') = [''words_2024-01-02_030405.json''])"
proof -
  have n: "snap_name (stem WORDS_FILE) (now \<lparr>now = \<lparr>year = 2024, month = 1, day = 2, hour = 3, minute = 4, second = 5\<rparr>, copy_ok = True\<rparr>) = ''words_2024-01-02_030405.json''"
    by (simp add: snap_name_def strftime_def zfill_def dec.simps digit_simps)
  have m: "snap_name (stem LEARNED_FILE) (now \<lparr>now = \<lparr>year = 2024, month = 1, day = 2, hour = 3, minute = 4, second = 5\<rparr>, copy_ok = True\<rparr>) = ''learned_words_2024-01-02_030405.json''"
    by (simp add: snap_name_def strftime_def zfill_def dec.simps digit_simps)
  have g: "glob (stem WORDS_FILE) (copy2 WORDS_FILE ''words_2024-01-02_030405.json'' \<lparr>files = (\<lambda>p. Some (JList [''cat''])), backups = []\<rparr>)
      = [''words_2024-01-02_030405.json'']"
    by (simp add: glob_def copy2_def glob_match_def)
  have j: "\<exists>f'. json_dump \<lparr>now = \<lparr>year = 2024, month = 1, day = 2, hour = 3, minute = 4, second = 5\<rparr>, copy_ok = True\<rparr> WORDS_FILE (JDict []) \<lparr>files = (\<lambda>p. Some (JList [''cat''])), backups = []\<rparr> = Inr f'
        \<and> map fst (backups f') = [''words_2024-01-02_030405.json'']"
    using n g by (simp add: json_dump_def write_text_def trim_backups_def all_but_last_def)
       (simp add: copy2_def)
  from n m j show ?thesis by simp
qed

section \<open>Order of the snapshot names\<close>
















section \<open>Retention of the snapshots\<close>



















end
